theory Spec2Isabelle
  imports Complex_Main "HOL-Library.Multiset"
begin

section \<open>Values exchanged between the two stations\<close>

text \<open>
  Both channels of \<^verbatim>\<open>b_hard.py\<close> carry JSON documents. A decoded document is a Python
  value: \<^verbatim>\<open>None\<close>, a bool, a number, a string, a list or a dict. A dict is modelled as
  a map from keys to values, so that \<^verbatim>\<open>d.get(k)\<close> is \<open>d k\<close> and \<^verbatim>\<open>d.update(e)\<close> is
  \<open>d ++ e\<close>. A datagram is identified with the document it encodes: \<^verbatim>\<open>json.dumps\<close>,
  \<^verbatim>\<open>encode\<close>, \<^verbatim>\<open>decode\<close> and \<^verbatim>\<open>json.loads\<close> are library code, and a datagram
  that they reject appears below as the decoding result \<open>None\<close>.
\<close>

datatype json =
    JNull
  | JBool bool
  | JNum real
  | JStr string
  | JArr "json list"
  | JObj "string \<Rightarrow> json option"

type_synonym dict = "string \<rightharpoonup> json"

section \<open>Gaze channel\<close>

text \<open>
  The module-level state of the gaze channel: the gating flag, the last known remote
  sample, the three counters of \<^verbatim>\<open>network_stats\<close>, and the datagrams that
  \<^verbatim>\<open>send_socket.sendto\<close> has accepted, oldest first.
\<close>

record network_stats =
  sent :: int
  received :: int
  errors :: int

record gaze_net =
  GAZE_SHARING_ACTIVE :: bool
  remote_gaze_data :: dict
  stats :: network_stats
  send_socket :: "dict list"

definition initial_gaze_net :: gaze_net where
  "initial_gaze_net =
     \<lparr> GAZE_SHARING_ACTIVE = False,
       remote_gaze_data =
         [''x'' \<mapsto> JNum 0, ''y'' \<mapsto> JNum 0, ''valid'' \<mapsto> JBool False, ''timestamp'' \<mapsto> JNum 0],
       stats = \<lparr> sent = 0, received = 0, errors = 0 \<rparr>,
       send_socket = [] \<rparr>"

definition count_error :: "gaze_net \<Rightarrow> gaze_net" where
  "count_error st = st\<lparr> stats := (stats st)\<lparr> errors := errors (stats st) + 1 \<rparr> \<rparr>"

text \<open>
  \<^verbatim>\<open>send_gaze_data(gaze_x, gaze_y, valid)\<close>. Its callers pass numbers, so \<^verbatim>\<open>float\<close>
  cannot raise; \<open>now\<close> is the reading of \<^verbatim>\<open>time.time()\<close> and \<open>sendto_raises\<close> says
  whether the socket call raises, which the \<^verbatim>\<open>except\<close> clause turns into an error count.
\<close>

definition send_gaze_data :: "real \<Rightarrow> real \<Rightarrow> bool \<Rightarrow> real \<Rightarrow> bool \<Rightarrow> gaze_net \<Rightarrow> gaze_net" where
  "send_gaze_data gaze_x gaze_y valid now sendto_raises st =
     (if \<not> GAZE_SHARING_ACTIVE st then st
      else
        let data = [''x'' \<mapsto> JNum gaze_x, ''y'' \<mapsto> JNum gaze_y, ''valid'' \<mapsto> JBool valid,
                    ''timestamp'' \<mapsto> JNum now, ''computer'' \<mapsto> JStr ''B'']
        in if sendto_raises then count_error st
           else st\<lparr> send_socket := send_socket st @ [data],
                    stats := (stats st)\<lparr> sent := sent (stats st) + 1 \<rparr> \<rparr>)"

text \<open>A sequence of calls, each with its arguments and the environment it meets.\<close>

type_synonym gaze_call = "real \<times> real \<times> bool \<times> real \<times> bool"

fun send_gaze_calls :: "gaze_call list \<Rightarrow> gaze_net \<Rightarrow> gaze_net" where
  "send_gaze_calls [] st = st"
| "send_gaze_calls ((gaze_x, gaze_y, valid, now, sendto_raises) # calls) st =
     send_gaze_calls calls (send_gaze_data gaze_x gaze_y valid now sendto_raises st)"

text \<open>
  One turn of the \<^verbatim>\<open>while True\<close> loop of \<^verbatim>\<open>receive_gaze_data\<close>, by what
  \<^verbatim>\<open>recvfrom\<close> and the decoding produce: a timeout, another socket error, or a datagram
  with its decoding result. A decoded value that is not a dict has no \<^verbatim>\<open>get\<close>: the
  \<^verbatim>\<open>AttributeError\<close> is counted like any other exception.
\<close>

datatype gaze_recv = GazeTimeout | GazeSocketError | GazeDatagram "json option"

fun receive_gaze_step :: "gaze_recv \<Rightarrow> gaze_net \<Rightarrow> gaze_net" where
  "receive_gaze_step GazeTimeout st = st"
| "receive_gaze_step GazeSocketError st = count_error st"
| "receive_gaze_step (GazeDatagram None) st = count_error st"
| "receive_gaze_step (GazeDatagram (Some (JObj gaze_info))) st =
     (if gaze_info ''computer'' = Some (JStr ''A'')
      then st\<lparr> remote_gaze_data := remote_gaze_data st ++ gaze_info,
               stats := (stats st)\<lparr> received := received (stats st) + 1 \<rparr> \<rparr>
      else st)"
| "receive_gaze_step (GazeDatagram (Some _)) st = count_error st"

text \<open>The loop never returns; its effect after any finite number of turns is this fold.\<close>

fun receive_gaze_data :: "gaze_recv list \<Rightarrow> gaze_net \<Rightarrow> gaze_net" where
  "receive_gaze_data [] st = st"
| "receive_gaze_data (ev # evs) st = receive_gaze_data evs (receive_gaze_step ev st)"

section \<open>Control channel\<close>

text \<open>
  \<^verbatim>\<open>RobustSyncClient\<close>: whether \<^verbatim>\<open>self.socket\<close> is set, the \<^verbatim>\<open>running\<close> flag, the
  inbound \<^verbatim>\<open>message_queue\<close> (head first), and a log of what the client does towards
  the outside, in order: the puts of the receive loop, every \<^verbatim>\<open>sendto\<close> call with its
  outcome, and every \<^verbatim>\<open>time.sleep(0.1)\<close> between attempts.
\<close>

type_synonym message = dict

datatype event = Put message | SendTo dict | SendError dict | Sleep

record sync_client =
  has_socket :: bool
  running :: bool
  message_queue :: "message list"
  log :: "event list"

definition idle_client :: sync_client where
  "idle_client = \<lparr> has_socket = True, running = True, message_queue = [], log = [] \<rparr>"



text \<open>
  \<^verbatim>\<open>send_message(message_type, data=None, retry_count=3)\<close>. The message is built once,
  before the loop, with \<open>now\<close> the reading of \<^verbatim>\<open>time.perf_counter()\<close>; \<^verbatim>\<open>data or {}\<close>
  replaces a missing payload by the empty dict. \<open>raises attempt\<close> says whether the body
  of the \<^verbatim>\<open>try\<close> raises at that attempt; \<^verbatim>\<open>range(retry_count)\<close> is empty for a count that
  is not positive.
\<close>

definition message_of :: "string \<Rightarrow> dict option \<Rightarrow> real \<Rightarrow> dict" where
  "message_of message_type data now =
     [''type'' \<mapsto> JStr message_type, ''timestamp'' \<mapsto> JNum now,
      ''data'' \<mapsto> JObj (case data of None \<Rightarrow> Map.empty | Some d \<Rightarrow> d)]"

fun send_attempts :: "(nat \<Rightarrow> bool) \<Rightarrow> dict \<Rightarrow> nat \<Rightarrow> nat \<Rightarrow> sync_client \<Rightarrow> bool \<times> sync_client" where
  "send_attempts raises message attempt 0 c = (False, c)"
| "send_attempts raises message attempt (Suc remaining) c =
     (if raises attempt
      then send_attempts raises message (Suc attempt) remaining
             (c\<lparr> log := log c @ [SendError message, Sleep] \<rparr>)
      else (True, c\<lparr> log := log c @ [SendTo message] \<rparr>))"

definition send_message ::
  "string \<Rightarrow> dict option \<Rightarrow> int \<Rightarrow> real \<Rightarrow> (nat \<Rightarrow> bool) \<Rightarrow> sync_client \<Rightarrow> bool \<times> sync_client" where
  "send_message message_type data retry_count now raises c =
     (if \<not> has_socket c then (False, c)
      else
        let message = message_of message_type data now
        in send_attempts raises message 0 (nat retry_count) c)"

text \<open>
  One turn of \<^verbatim>\<open>_receive_messages\<close>: \<^verbatim>\<open>recvfrom\<close> times out, fails otherwise, or
  returns a datagram with the sender's address, read at \<open>receipt_time\<close>. Only a decoded
  dict takes the two item assignments; on any other value they raise \<^verbatim>\<open>TypeError\<close>,
  which the loop prints and forgets, as it does a datagram that does not decode. The
  second argument is what a reply meets: the clock reading and the socket's behaviour.
\<close>

datatype recv_event = RecvTimeout | RecvError | RecvDatagram "json option" json real

type_synonym send_env = "real \<times> (nat \<Rightarrow> bool)"

fun receive_step :: "recv_event \<Rightarrow> send_env \<Rightarrow> sync_client \<Rightarrow> sync_client" where
  "receive_step RecvTimeout env c = c"
| "receive_step RecvError env c = c"
| "receive_step (RecvDatagram None addr receipt_time) env c = c"
| "receive_step (RecvDatagram (Some (JObj decoded)) addr receipt_time) (now, raises) c =
     (let message = decoded(''sender_addr'' \<mapsto> addr, ''receipt_time'' \<mapsto> JNum receipt_time);
          c1 = c\<lparr> message_queue := message_queue c @ [message], log := log c @ [Put message] \<rparr>
      in if message ''type'' = Some (JStr ''ping'')
         then snd (send_message ''pong'' (Some [''client_ready'' \<mapsto> JBool True]) 3 now raises c1)
         else c1)"
| "receive_step (RecvDatagram (Some _) addr receipt_time) env c = c"


text \<open>
  \<^verbatim>\<open>wait_for_message(expected_type, timeout)\<close> on the queue. The receive loop runs
  beside it, so each turn of the waiting loop comes with the messages that were put
  before its \<^verbatim>\<open>get\<close> returned and those put between the \<^verbatim>\<open>get\<close> and the put-back.
  The list of turns is as long as the clock lets the loop run: its condition
  \<^verbatim>\<open>time.perf_counter() - start_time < timeout\<close> holds once per element. A \<^verbatim>\<open>get\<close> on a
  queue that stays empty for 10 ms raises \<^verbatim>\<open>queue.Empty\<close> and the loop goes on.
\<close>

type_synonym poll = "message list \<times> message list"

fun wait_for_message :: "string \<Rightarrow> poll list \<Rightarrow> message list \<Rightarrow> message option \<times> message list" where
  "wait_for_message expected_type [] q = (None, q)"
| "wait_for_message expected_type ((before, between) # polls) q =
     (case q @ before of
        [] \<Rightarrow> wait_for_message expected_type polls between
      | message # rest \<Rightarrow>
          if message ''type'' = Some (JStr expected_type) then (Some message, rest)
          else wait_for_message expected_type polls (rest @ between @ [message]))"

text \<open>\<^verbatim>\<open>get_message\<close>, on the queue as it is when the \<^verbatim>\<open>get\<close> returns or gives up.\<close>

definition get_message :: "message list \<Rightarrow> message option \<times> message list" where
  "get_message q = (case q of [] \<Rightarrow> (None, []) | message # rest \<Rightarrow> (Some message, rest))"


subsection \<open>Vocabulary for the statements about the control channel\<close>





text \<open>Everything the receive loop put on the queue during the turns of a wait.\<close>

fun arrived :: "poll list \<Rightarrow> message list" where
  "arrived [] = []"
| "arrived ((before, between) # polls) = before @ between @ arrived polls"

fun returned :: "message option \<Rightarrow> message multiset" where
  "returned None = {#}"
| "returned (Some message) = {#message#}"

text \<open>Sample documents.\<close>

definition ping_datagram :: dict where
  "ping_datagram = [''type'' \<mapsto> JStr ''ping'', ''timestamp'' \<mapsto> JNum 3, ''data'' \<mapsto> JObj Map.empty]"




section \<open>Stage coordinator\<close>

text \<open>
  \<^verbatim>\<open>run_synchronized_experiment\<close> drives the trial stages from the control messages.
  The model keeps what the protocol depends on: the gating flag, the sync client, the
  variables of the function that outlive a stage, the trial log, and for every frame
  drawn whether the branch \<^verbatim>\<open>if GAZE_SHARING_ACTIVE\<close> drew the gaze markers. Window,
  stimuli and grid geometry belong to the renderer and are left out; so are the
  counters of \<^verbatim>\<open>local_gaze_stats\<close>.

  \<^verbatim>\<open>event.getKeys\<close> is called with a key list, so it returns only these five keys.
\<close>

datatype key = KeyF | KeyL | KeyH | KeyC | KeyEscape

fun upper :: "key \<Rightarrow> string" where
  "upper KeyF = ''F''"
| "upper KeyL = ''L''"
| "upper KeyH = ''H''"
| "upper KeyC = ''C''"
| "upper KeyEscape = ''ESCAPE''"

text \<open>
  One row of \<^verbatim>\<open>data_log\<close>, without the two layout entries. \<^verbatim>\<open>client_response\<close> and
  \<^verbatim>\<open>client_rt\<close> are logged as \<^verbatim>\<open>None\<close> when the variable is not bound, which is how they
  are initialised anyway.
\<close>

record trial_log =
  trial :: json
  log_target_position :: json
  log_correct_category :: json
  log_client_response :: "string option"
  log_client_rt :: "real option"
  log_first_responder :: json
  log_first_response :: json
  log_trial_score :: json
  log_total_score :: json

text \<open>
  \<^verbatim>\<open>target_position\<close> is \<open>None\<close> while the local variable is unbound: reading it
  then raises \<^verbatim>\<open>UnboundLocalError\<close>. The other variables are assigned before every read.
  \<open>saved\<close> is the table written to the CSV file at the end.
\<close>

record coordinator =
  net :: gaze_net
  client :: sync_client
  current_trial :: json
  target_position :: "json option"
  correct_category :: json
  target_square_color :: string
  client_response :: "string option"
  client_rt :: "real option"
  first_responder :: json
  first_response :: json
  response_received_server :: bool
  response_received_client :: bool
  trial_score :: json
  total_score :: json
  data_log :: "trial_log list"
  gaze_frames :: "bool list"
  saved :: "trial_log list option"

text \<open>Before \<^verbatim>\<open>start_client\<close> there is no client; after it, \<open>idle_client\<close>.\<close>

definition no_client :: sync_client where
  "no_client = \<lparr> has_socket = False, running = False, message_queue = [], log = [] \<rparr>"

definition initial_coordinator :: coordinator where
  "initial_coordinator =
     \<lparr> net = initial_gaze_net, client = no_client, current_trial = JNum 0,
       target_position = None, correct_category = JNull, target_square_color = ''red'',
       client_response = None, client_rt = None, first_responder = JNull, first_response = JNull,
       response_received_server = False, response_received_client = False,
       trial_score = JNum 0, total_score = JNum 0, data_log = [], gaze_frames = [], saved = None \<rparr>"

text \<open>
  How a piece of the function leaves its state: it ran through (\<open>Running\<close>), it is
  still inside a loop when the observed inputs end (\<open>Waiting\<close>), the operator pressed
  escape and \<^verbatim>\<open>terminate_task()\<close> ended the process (\<open>Terminated\<close>), or an exception
  left the function (\<open>Crashed\<close>).
\<close>

datatype 'a run = Running 'a | Waiting 'a | Terminated 'a | Crashed 'a

fun the_state :: "'a run \<Rightarrow> 'a" where
  "the_state (Running st) = st"
| "the_state (Waiting st) = st"
| "the_state (Terminated st) = st"
| "the_state (Crashed st) = st"

text \<open>The assignment \<^verbatim>\<open>GAZE_SHARING_ACTIVE = ...\<close>, and a call of \<^verbatim>\<open>sync_client.send_message\<close>
  with the default \<^verbatim>\<open>retry_count\<close>, whose answer the coordinator never reads.\<close>

definition set_sharing :: "bool \<Rightarrow> coordinator \<Rightarrow> coordinator" where
  "set_sharing active st = st\<lparr> net := (net st)\<lparr> GAZE_SHARING_ACTIVE := active \<rparr> \<rparr>"

definition send :: "string \<Rightarrow> dict option \<Rightarrow> send_env \<Rightarrow> coordinator \<Rightarrow> coordinator" where
  "send message_type data env st =
     st\<lparr> client := snd (send_message message_type data 3 (fst env) (snd env) (client st)) \<rparr>"

text \<open>\<^verbatim>\<open>d.get(k, fallback)\<close>.\<close>

definition py_get :: "dict \<Rightarrow> string \<Rightarrow> json \<Rightarrow> json" where
  "py_get d k fallback = (case d k of None \<Rightarrow> fallback | Some v \<Rightarrow> v)"

text \<open>A frame is drawn; the gaze markers are on it exactly when the flag is set.\<close>

definition draw_frame :: "coordinator \<Rightarrow> coordinator" where
  "draw_frame st = st\<lparr> gaze_frames := gaze_frames st @ [GAZE_SHARING_ACTIVE (net st)] \<rparr>"

text \<open>The three statements of every escape branch before its \<^verbatim>\<open>return\<close>.\<close>

definition escape :: "send_env \<Rightarrow> coordinator \<Rightarrow> coordinator run" where
  "escape env st = Terminated (send ''end_experiment'' None env (set_sharing False st))"

subsection \<open>Response collection\<close>

text \<open>
  One turn of the loop \<^verbatim>\<open>while not (response_received['server'] and
  response_received['client'])\<close> meets the keys pressed since the last turn (with their
  times), the turns that its 100 ms \<^verbatim>\<open>wait_for_message\<close> gets to make, and the
  environment of the one message it may send.
\<close>

type_synonym response_turn = "(key \<times> real) list \<times> poll list \<times> send_env"

definition check_client_response :: "(key \<times> real) list \<Rightarrow> send_env \<Rightarrow> coordinator \<Rightarrow> coordinator run" where
  "check_client_response keys env st =
     (if \<not> response_received_client st then
        (case keys of
           [] \<Rightarrow> Running st
         | (key, rt) # _ \<Rightarrow>
             if key = KeyEscape then escape env st
             else
               let st1 = st\<lparr> client_response := Some (upper key), client_rt := Some rt,
                              response_received_client := True \<rparr>;
                   st2 = (if first_responder st1 = JNull
                          then st1\<lparr> first_responder := JStr ''client'',
                                    first_response := JStr (upper key),
                                    target_square_color := ''green'' \<rparr>
                          else st1)
               in Running (send ''response_update''
                    (Some [''responder'' \<mapsto> JStr ''client'', ''response'' \<mapsto> JStr (upper key),
                           ''rt'' \<mapsto> JNum rt]) env st2))
      else if KeyEscape \<in> fst ` set keys then escape env st
      else Running st)"

text \<open>
  The part after \<^verbatim>\<open># Check for server response\<close>. A \<^verbatim>\<open>data\<close> entry that is not a dict
  has no \<^verbatim>\<open>get\<close>: the \<^verbatim>\<open>AttributeError\<close> leaves the function.
\<close>

definition check_server_response :: "poll list \<Rightarrow> coordinator \<Rightarrow> coordinator run" where
  "check_server_response polls st =
     (case wait_for_message ''response_update'' polls (message_queue (client st)) of
        (resp_msg, q) \<Rightarrow>
          let st1 = st\<lparr> client := (client st)\<lparr> message_queue := q \<rparr> \<rparr>
          in (case resp_msg of
                None \<Rightarrow> Running st1
              | Some m \<Rightarrow>
                  if m \<noteq> Map.empty \<and> m ''type'' = Some (JStr ''response_update'') then
                    (case py_get m ''data'' (JObj Map.empty) of
                       JObj resp_data \<Rightarrow>
                         if resp_data ''responder'' = Some (JStr ''server'')
                            \<and> \<not> response_received_server st1
                         then
                           let st2 = st1\<lparr> response_received_server := True \<rparr>
                           in Running
                                (if first_responder st2 = JNull
                                 then st2\<lparr> first_responder := JStr ''server'',
                                           first_response := py_get resp_data ''response'' JNull,
                                           target_square_color := ''green'' \<rparr>
                                 else st2)
                         else Running st1
                     | _ \<Rightarrow> Crashed st1)
                  else Running st1))"

text \<open>
  A turn draws first: the gaze markers if the flag is set, then the covered grid at
  \<^verbatim>\<open>target_position\<close>. Then it looks at both sources.
\<close>

definition response_turn :: "response_turn \<Rightarrow> coordinator \<Rightarrow> coordinator run" where
  "response_turn t st =
     (case t of (keys, polls, env) \<Rightarrow>
        if target_position st = None then Crashed (draw_frame st)
        else
          (case check_client_response keys env (draw_frame st) of
             Running st1 \<Rightarrow> check_server_response polls st1
           | stopped \<Rightarrow> stopped))"

fun response_loop :: "response_turn list \<Rightarrow> coordinator \<Rightarrow> coordinator run" where
  "response_loop [] st =
     (if response_received_server st \<and> response_received_client st
      then Running (set_sharing False st)
      else Waiting st)"
| "response_loop (t # rest) st =
     (if response_received_server st \<and> response_received_client st
      then Running (set_sharing False st)
      else
        (case response_turn t st of
           Running st1 \<Rightarrow> response_loop rest st1
         | stopped \<Rightarrow> stopped))"



subsection \<open>Feedback\<close>







subsection \<open>Grid display\<close>

text \<open>
  A frame of the study phase meets the tracker's newest sample (none, one without gaze
  data, or a gaze position), the clock and socket that \<^verbatim>\<open>send_gaze_data\<close> meets, whether
  escape was pressed, and the environment of the message sent on escape.
\<close>

type_synonym display_frame = "(real \<times> real) option option \<times> real \<times> bool \<times> bool \<times> send_env"




subsection \<open>The whole run\<close>


type_synonym turn = "message list \<times> send_env \<times> display_frame list \<times> response_turn list \<times> nat"




subsection \<open>Vocabulary for the statements about the coordinator\<close>

text \<open>What the first-responder race has decided: who, what, and the colour of the target square.\<close>

definition race :: "coordinator \<Rightarrow> json \<times> json \<times> string" where
  "race st = (first_responder st, first_response st, target_square_color st)"

text \<open>Sample states and messages.\<close>

definition responding_client :: coordinator where
  "responding_client =
     initial_coordinator\<lparr> client := idle_client, target_position := Some (JNum 7),
       first_responder := JStr ''client'', first_response := JStr ''F'',
       target_square_color := ''green'', client_response := Some ''F'', client_rt := Some 1,
       response_received_client := True \<rparr>"

definition server_update :: message where
  "server_update =
     [''type'' \<mapsto> JStr ''response_update'',
      ''data'' \<mapsto> JObj [''responder'' \<mapsto> JStr ''server'', ''response'' \<mapsto> JStr ''H'']]"


section \<open>Gaze channel: properties\<close>

lemma send_gaze_data_inactive:
  "\<not> GAZE_SHARING_ACTIVE st \<Longrightarrow> send_gaze_data gaze_x gaze_y valid now sendto_raises st = st"
  by (simp add: send_gaze_data_def)

text \<open>
  C1. While \<^verbatim>\<open>GAZE_SHARING_ACTIVE\<close> is false, any sequence of calls to
  \<^verbatim>\<open>send_gaze_data\<close> leaves the whole channel state as it was: nothing is handed to the
  socket, and neither the sent counter nor any other counter moves.
\<close>

theorem send_gaze_data_gated:
  "\<not> GAZE_SHARING_ACTIVE st \<Longrightarrow> send_gaze_calls calls st = st"
proof (induction calls)
  case Nil
  show ?case by simp
next
  case (Cons call calls)
  obtain gaze_x gaze_y valid now sendto_raises
    where call: "call = (gaze_x, gaze_y, valid, now, sendto_raises)"
    by (cases call) auto
  from Cons show ?case
    by (simp add: call send_gaze_data_inactive)
qed

theorem send_gaze_data_gated_witness:
  "\<not> GAZE_SHARING_ACTIVE initial_gaze_net \<and>
   send_gaze_calls [(512, 384, True, 10, False), (0, 0, False, 11, True)] initial_gaze_net
     = initial_gaze_net"
proof -
  have h: "\<not> GAZE_SHARING_ACTIVE initial_gaze_net"
    by (simp add: initial_gaze_net_def)
  show ?thesis
    using h send_gaze_data_gated [OF h, of "[(512, 384, True, 10, False), (0, 0, False, 11, True)]"]
    by simp
qed

lemma receive_gaze_step_rejected:
  "gaze_info ''computer'' \<noteq> Some (JStr ''A'') \<Longrightarrow>
   receive_gaze_step (GazeDatagram (Some (JObj gaze_info))) st = st"
  by simp

lemma receive_gaze_step_not_dict:
  "(\<forall>gaze_info. j \<noteq> JObj gaze_info) \<Longrightarrow>
   receive_gaze_step (GazeDatagram (Some j)) st = count_error st"
  by (cases j) simp_all

text \<open>
  C9. Only a datagram that decodes to a dict whose \<^verbatim>\<open>computer\<close> entry is the string
  \<^verbatim>\<open>A\<close> touches the remote sample or the received counter. For any other decoded value
  (a dict with another origin, such as the station's own \<^verbatim>\<open>B\<close>, or with none, or a
  value that is not a dict) both stay as they were.
\<close>

theorem receive_gaze_data_only_from_A:
  assumes "\<And>gaze_info. decoded = JObj gaze_info \<Longrightarrow> gaze_info ''computer'' \<noteq> Some (JStr ''A'')"
  shows "remote_gaze_data (receive_gaze_step (GazeDatagram (Some decoded)) st) = remote_gaze_data st \<and>
   received (stats (receive_gaze_step (GazeDatagram (Some decoded)) st)) = received (stats st)"
  using assms by (cases decoded) (simp_all add: count_error_def)

theorem receive_gaze_data_only_from_A_witness:
  "remote_gaze_data (receive_gaze_step (GazeDatagram (Some (JObj [''computer'' \<mapsto> JStr ''B'', ''x'' \<mapsto> JNum 7]))) initial_gaze_net) = remote_gaze_data initial_gaze_net \<and>
   received (stats (receive_gaze_step (GazeDatagram (Some (JObj [''computer'' \<mapsto> JStr ''B'', ''x'' \<mapsto> JNum 7]))) initial_gaze_net)) = received (stats initial_gaze_net)"
  using receive_gaze_data_only_from_A [of "JObj [''computer'' \<mapsto> JStr ''B'', ''x'' \<mapsto> JNum 7]" initial_gaze_net]
  by simp



section \<open>Control channel: properties\<close>





lemma send_attempts_frame:
  "message_queue (snd (send_attempts raises message attempt remaining c)) = message_queue c \<and>
   running (snd (send_attempts raises message attempt remaining c)) = running c \<and>
   has_socket (snd (send_attempts raises message attempt remaining c)) = has_socket c"
  by (induction remaining arbitrary: attempt c) simp_all

lemma send_attempts_log_prefix:
  "\<exists>es. log (snd (send_attempts raises message attempt remaining c)) = log c @ es \<and>
        (\<forall>e \<in> set es. \<forall>m. e \<noteq> Put m)"
proof (induction remaining arbitrary: attempt c)
  case 0
  show ?case by simp
next
  case (Suc remaining)
  show ?case
  proof (cases "raises attempt")
    case True
    from Suc.IH [of "Suc attempt" "c\<lparr> log := log c @ [SendError message, Sleep] \<rparr>"]
    obtain es where "log (snd (send_attempts raises message (Suc attempt) remaining
             (c\<lparr> log := log c @ [SendError message, Sleep] \<rparr>))) = (log c @ [SendError message, Sleep]) @ es"
       "\<forall>e \<in> set es. \<forall>m. e \<noteq> Put m" by auto
    with True show ?thesis by (intro exI [of _ "[SendError message, Sleep] @ es"]) auto
  next
    case False
    then show ?thesis by (intro exI [of _ "[SendTo message]"]) simp
  qed
qed





lemma send_message_frame:
  "message_queue (snd (send_message t d n now raises c)) = message_queue c \<and>
   running (snd (send_message t d n now raises c)) = running c \<and>
   has_socket (snd (send_message t d n now raises c)) = has_socket c"
  by (simp add: send_message_def send_attempts_frame)

lemma send_message_log_extends:
  "\<exists>es. log (snd (send_message t d n now raises c)) = log c @ es \<and> (\<forall>e \<in> set es. \<forall>m. e \<noteq> Put m)"
proof (cases "has_socket c")
  case True
  then show ?thesis
    using send_attempts_log_prefix [of raises "message_of t d now" 0 "nat n" c]
    by (simp add: send_message_def Let_def)
next
  case False
  then show ?thesis by (simp add: send_message_def)
qed







text \<open>
  C10. A datagram that decodes to a dict is put on the queue, stamped with the sender's
  address and the receipt time, whatever its type: a ping or a pong like any other.
  The put is the first thing the turn does; a reply to a ping comes after it and puts
  nothing. A consumer that polls the queue next gets the heartbeat message.
\<close>

theorem decoded_message_enqueued:
  "message_queue (receive_step (RecvDatagram (Some (JObj decoded)) addr receipt_time) env c)
     = message_queue c @ [decoded(''sender_addr'' \<mapsto> addr, ''receipt_time'' \<mapsto> JNum receipt_time)] \<and>
   (\<exists>reply. log (receive_step (RecvDatagram (Some (JObj decoded)) addr receipt_time) env c)
        = log c @ Put (decoded(''sender_addr'' \<mapsto> addr, ''receipt_time'' \<mapsto> JNum receipt_time)) # reply \<and>
      (\<forall>e \<in> set reply. \<forall>m. e \<noteq> Put m)) \<and>
   (message_queue c = [] \<longrightarrow>
      get_message (message_queue (receive_step (RecvDatagram (Some (JObj decoded)) addr receipt_time) env c))
        = (Some (decoded(''sender_addr'' \<mapsto> addr, ''receipt_time'' \<mapsto> JNum receipt_time)), []))"
proof -
  obtain now raises where env: "env = (now, raises)" by (cases env) auto
  define message where "message = decoded(''sender_addr'' \<mapsto> addr, ''receipt_time'' \<mapsto> JNum receipt_time)"
  define c1 where "c1 = c\<lparr> message_queue := message_queue c @ [message], log := log c @ [Put message] \<rparr>"
  define c2 where "c2 = receive_step (RecvDatagram (Some (JObj decoded)) addr receipt_time) env c"
  have c2: "c2 = (if message ''type'' = Some (JStr ''ping'')
         then snd (send_message ''pong'' (Some [''client_ready'' \<mapsto> JBool True]) 3 now raises c1)
         else c1)"
    by (simp add: c2_def env Let_def message_def c1_def)
  have queue: "message_queue c2 = message_queue c @ [message]"
    by (simp add: c2 send_message_frame c1_def)
  have "\<exists>reply. log c2 = log c1 @ reply \<and> (\<forall>e \<in> set reply. \<forall>m. e \<noteq> Put m)"
    using send_message_log_extends [of "''pong''" "Some [''client_ready'' \<mapsto> JBool True]" 3 now raises c1]
    by (simp add: c2)
  then have trace: "\<exists>reply. log c2 = log c @ Put message # reply \<and> (\<forall>e \<in> set reply. \<forall>m. e \<noteq> Put m)"
    by (simp add: c1_def)
  have "message_queue c = [] \<longrightarrow> get_message (message_queue c2) = (Some message, [])"
    by (simp add: queue get_message_def)
  with queue trace show ?thesis
    unfolding c2_def message_def by blast
qed

theorem decoded_message_enqueued_witness:
  "message_queue idle_client = [] \<and>
   get_message (message_queue (receive_step (RecvDatagram (Some (JObj ping_datagram)) (JStr ''A'') 4)
                   (5, \<lambda>attempt. False) idle_client))
     = (Some (ping_datagram(''sender_addr'' \<mapsto> JStr ''A'', ''receipt_time'' \<mapsto> JNum 4)), [])"
proof -
  have h: "message_queue idle_client = []"
    by (simp add: idle_client_def)
  with decoded_message_enqueued [of ping_datagram "JStr ''A''" 4 "(5, \<lambda>attempt. False)" idle_client]
  show ?thesis by blast
qed


lemma wait_for_message_no_invention:
  "mset (snd (wait_for_message expected_type polls q))
     + returned (fst (wait_for_message expected_type polls q)) \<subseteq># mset q + mset (arrived polls)"
proof (induction polls arbitrary: q)
  case Nil
  show ?case by simp
next
  case (Cons p polls)
  obtain before between where p: "p = (before, between)" by (cases p) auto
  show ?case
  proof (cases "q @ before")
    case Nil
    have "mset (snd (wait_for_message expected_type polls between))
     + returned (fst (wait_for_message expected_type polls between)) \<subseteq># mset between + mset (arrived polls)"
      by (rule Cons.IH)
    with Nil show ?thesis by (simp add: p)
  next
    case (Cons message rest)
    then have q: "mset q + mset before = mset rest + {#message#}"
      by (metis mset.simps(2) mset_append add_mset_add_single)
    show ?thesis
    proof (cases "message ''type'' = Some (JStr expected_type)")
      case True
      have "mset rest + {#message#} \<subseteq># mset q + mset before + (mset between + mset (arrived polls))"
        unfolding q by simp
      with True Cons show ?thesis by (simp add: p ac_simps)
    next
      case False
      have "mset (snd (wait_for_message expected_type polls (rest @ between @ [message])))
                 + returned (fst (wait_for_message expected_type polls (rest @ between @ [message])))
             \<subseteq># mset (rest @ between @ [message]) + mset (arrived polls)"
        by (rule Cons.IH)
      also have "mset (rest @ between @ [message]) + mset (arrived polls) =
          mset q + mset before + mset between + mset (arrived polls)"
        unfolding q by simp
      finally show ?thesis using False Cons by (simp add: p ac_simps)
    qed
  qed
qed




section \<open>Stage coordinator: properties\<close>

lemma race_send: "race (send t d env st) = race st"
  by (simp add: race_def send_def)

lemma race_set_sharing: "race (set_sharing b st) = race st"
  by (simp add: race_def set_sharing_def)

lemma race_draw_frame: "race (draw_frame st) = race st"
  by (simp add: race_def draw_frame_def)

lemma race_escape: "race (the_state (escape env st)) = race st"
  by (simp add: escape_def race_send race_set_sharing)

lemma race_check_client_response:
  assumes "first_responder st \<noteq> JNull"
  shows "race (the_state (check_client_response keys env st)) = race st"
proof (cases "response_received_client st")
  case True
  then show ?thesis
    by (simp add: check_client_response_def race_escape)
next
  case False
  show ?thesis
  proof (cases keys)
    case Nil
    with False show ?thesis by (simp add: check_client_response_def)
  next
    case (Cons k rest)
    obtain key rt where k: "k = (key, rt)" by (cases k) auto
    show ?thesis
    proof (cases "key = KeyEscape")
      case True
      with False Cons k show ?thesis
        by (simp add: check_client_response_def race_escape)
    next
      case no_escape: False
      with False Cons k assms show ?thesis
        by (simp add: check_client_response_def Let_def race_send) (simp add: race_def)
    qed
  qed
qed

lemma first_responder_check_client_response:
  assumes "first_responder st \<noteq> JNull"
  shows "first_responder (the_state (check_client_response keys env st)) \<noteq> JNull"
  using race_check_client_response [OF assms, of keys env] assms by (simp add: race_def)

lemma race_check_server_response:
  assumes "first_responder st \<noteq> JNull"
  shows "race (the_state (check_server_response polls st)) = race st"
proof -
  obtain resp_msg q
    where w: "wait_for_message ''response_update'' polls (message_queue (client st)) = (resp_msg, q)"
    by (cases "wait_for_message ''response_update'' polls (message_queue (client st))") auto
  show ?thesis
    using assms
    by (simp add: check_server_response_def w Let_def race_def
             split: option.split json.split)
qed

lemma race_response_turn:
  assumes "first_responder st \<noteq> JNull"
  shows "race (the_state (response_turn t st)) = race st"
proof -
  obtain keys polls env where t: "t = (keys, polls, env)" by (cases t) auto
  have d: "first_responder (draw_frame st) \<noteq> JNull"
    using assms by (simp add: draw_frame_def)
  show ?thesis
  proof (cases "target_position st = None")
    case True
    then show ?thesis by (simp add: response_turn_def t race_draw_frame)
  next
    case False
    show ?thesis
    proof (cases "check_client_response keys env (draw_frame st)")
      case (Running st1)
      have r1: "race st1 = race st"
        using race_check_client_response [OF d, of keys env] Running by (simp add: race_draw_frame)
      then have "first_responder st1 \<noteq> JNull" using assms by (simp add: race_def)
      from race_check_server_response [OF this, of polls] r1 False Running
      show ?thesis by (simp add: response_turn_def t race_draw_frame)
    next
      case (Waiting st1)
      with race_check_client_response [OF d, of keys env] False
      show ?thesis by (simp add: response_turn_def t race_draw_frame)
    next
      case (Terminated st1)
      with race_check_client_response [OF d, of keys env] False
      show ?thesis by (simp add: response_turn_def t race_draw_frame)
    next
      case (Crashed st1)
      with race_check_client_response [OF d, of keys env] False
      show ?thesis by (simp add: response_turn_def t race_draw_frame)
    qed
  qed
qed

text \<open>
  C4. Within a response stage the race is decided once. From any state of the loop in
  which \<^verbatim>\<open>first_responder\<close> is no longer \<^verbatim>\<open>None\<close>, whatever keys are pressed and
  whatever \<^verbatim>\<open>response_update\<close> messages come in, in any number of further turns and
  however the stage ends, \<^verbatim>\<open>first_responder\<close>, \<^verbatim>\<open>first_response\<close> and the colour of
  the target square stay what they are.
\<close>

theorem first_responder_set_once:
  assumes "first_responder st \<noteq> JNull"
  shows "race (the_state (response_loop turns st)) = race st"
  using assms
proof (induction turns arbitrary: st)
  case Nil
  then show ?case by (simp add: race_set_sharing)
next
  case (Cons t turns)
  show ?case
  proof (cases "response_received_server st \<and> response_received_client st")
    case True
    then show ?thesis by (simp add: race_set_sharing)
  next
    case False
    have turn: "race (the_state (response_turn t st)) = race st"
      by (rule race_response_turn [OF Cons.prems])
    show ?thesis
    proof (cases "response_turn t st")
      case (Running st1)
      with turn have r: "race st1 = race st" by simp
      then have "first_responder st1 \<noteq> JNull" using Cons.prems by (simp add: race_def)
      from Cons.IH [OF this] r False Running show ?thesis by (simp add: race_set_sharing)
    next
      case (Waiting st1)
      with turn False show ?thesis by (simp add: race_set_sharing)
    next
      case (Terminated st1)
      with turn False show ?thesis by (simp add: race_set_sharing)
    next
      case (Crashed st1)
      with turn False show ?thesis by (simp add: race_set_sharing)
    qed
  qed
qed

theorem first_responder_set_once_witness:
  "first_responder responding_client \<noteq> JNull \<and>
   race (the_state (response_loop
           [([(KeyL, 2)], [([server_update], [])], (3, \<lambda>attempt. False))] responding_client))
     = (JStr ''client'', JStr ''F'', ''green'')"
proof -
  have h: "first_responder responding_client \<noteq> JNull"
    by (simp add: responding_client_def)
  have r: "race responding_client = (JStr ''client'', JStr ''F'', ''green'')"
    by (simp add: race_def responding_client_def)
  have "race (the_state (response_loop
           [([(KeyL, 2)], [([server_update], [])], (3, \<lambda>attempt. False))] responding_client))
     = race responding_client"
    by (rule first_responder_set_once [OF h])
  then have "race (the_state (response_loop
           [([(KeyL, 2)], [([server_update], [])], (3, \<lambda>attempt. False))] responding_client))
     = (JStr ''client'', JStr ''F'', ''green'')"
    using r by (rule trans)
  with h show ?thesis by (rule conjI)
qed


lemma sharing_off: "\<not> GAZE_SHARING_ACTIVE (net (set_sharing False st))"
  by (simp add: set_sharing_def)












end
